theory Spec2Isabelle
  imports Main "HOL-Library.AList"
begin

section \<open>Values and records of the transaction manager\<close>

text \<open>
  The manager is TypeScript: a property read may give \<open>undefined\<close> or \<open>null\<close>
  besides a proper value, and the code under study tells the three apart
  (\<open>===\<close>, \<open>?.\<close>, \<open>||\<close>, \<open>>\<close>). A nullable value is therefore a value of
  \<open>'a js\<close>.
\<close>

datatype 'a js = Undefined | Null | Val 'a

text \<open>Property values of a transaction record: numbers, strings, nested objects.\<close>

datatype jsdata = Num int | Str string | Obj "(string \<times> jsdata js) list"

type_synonym jsobj = "string \<rightharpoonup> jsdata js"

text \<open>
  \<open>o.k\<close>: reading a property that the object does not own gives \<open>undefined\<close>.
\<close>

definition get_prop :: "jsobj \<Rightarrow> string \<Rightarrow> jsdata js" where
  "get_prop ob k = (case ob k of None \<Rightarrow> Undefined | Some v \<Rightarrow> v)"

text \<open>
  A transaction record \<open>Tx\<close>. The two properties that \<open>upsertTransaction\<close> computes
  on their own, \<open>status\<close> and \<open>receipt\<close>, are fields; every other own property
  (\<open>id\<close>, \<open>layer\<close>, \<open>note\<close>, \<open>principal\<close>, \<open>gas\<close>, ...) is an entry of \<open>props\<close>, so that
  the object spread \<open>{...a, ...b}\<close> is \<open>a ++ b\<close>: a key that \<open>b\<close> owns wins, also when
  its value is \<open>undefined\<close>. \<open>status\<close> is a number of the \<open>TxState\<close> enum, or
  \<open>undefined\<close>/\<open>null\<close>; \<open>receipt\<close> is an object, or \<open>None\<close> when it is
  \<open>undefined\<close>/\<open>null\<close> (the code only tests its truthiness and spreads it).
\<close>

record Tx =
  status :: "int js"
  receipt :: "jsobj option"
  props :: jsobj

definition tx_id :: "Tx \<Rightarrow> jsdata js" where
  "tx_id tx = get_prop (props tx) ''id''"

section \<open>The reconciliation merge of \<open>upsertTransaction\<close>\<close>

text \<open>
  The relational operator \<open>a > b\<close> of JavaScript on numbers: both operands are
  converted to numbers, \<open>undefined\<close> to \<open>NaN\<close> and \<open>null\<close> to \<open>0\<close>, and every
  comparison with \<open>NaN\<close> is false.
\<close>

fun toNumber :: "int js \<Rightarrow> int option" where
  "toNumber Undefined = None"
| "toNumber Null = Some 0"
| "toNumber (Val n) = Some n"

definition js_gt :: "int js \<Rightarrow> int js \<Rightarrow> bool" where
  "js_gt a b = (case (toNumber a, toNumber b) of
                  (Some x, Some y) \<Rightarrow> y < x
                | _ \<Rightarrow> False)"

text \<open>\<open>originalTx?.status\<close> and \<open>originalTx?.receipt\<close>, and \<open>{...originalTx}\<close>.\<close>

definition opt_status :: "Tx option \<Rightarrow> int js" where
  "opt_status original = (case original of None \<Rightarrow> Undefined | Some t \<Rightarrow> status t)"

definition opt_receipt :: "Tx option \<Rightarrow> jsobj option" where
  "opt_receipt original = (case original of None \<Rightarrow> None | Some t \<Rightarrow> receipt t)"

definition spread :: "jsobj option \<Rightarrow> jsobj" where
  "spread ob = (case ob of None \<Rightarrow> Map.empty | Some m \<Rightarrow> m)"

text \<open>
  Lines 275 to 286 of \<open>upsertTransaction\<close>. \<open>PROCESSED\<close> is the value of
  \<open>TxState.PROCESSED\<close>; the enum is declared in \<open>shared/types\<close>, which is not
  part of the sources at hand, so the value is a parameter.
  \<^verbatim>\<open>
    const receipt = tx.receipt
      ? { ...originalTx?.receipt, ...tx.receipt }
      : originalTx?.receipt;
    let { status } = tx;
    if (originalTx?.status > TxState.PROCESSED && originalTx?.status > tx.status) {
      status = originalTx.status;
    }
    const updatedTx: Tx = { ...originalTx, ...tx, status, receipt };
  \<close>
\<close>

definition merge_receipt :: "Tx option \<Rightarrow> Tx \<Rightarrow> jsobj option" where
  "merge_receipt originalTx tx =
     (case receipt tx of
        Some r \<Rightarrow> Some (spread (opt_receipt originalTx) ++ r)
      | None \<Rightarrow> opt_receipt originalTx)"

definition merge_status :: "int \<Rightarrow> Tx option \<Rightarrow> Tx \<Rightarrow> int js" where
  "merge_status PROCESSED originalTx tx =
     (if js_gt (opt_status originalTx) (Val PROCESSED)
         \<and> js_gt (opt_status originalTx) (status tx)
      then opt_status originalTx
      else status tx)"

definition updatedTx :: "int \<Rightarrow> Tx option \<Rightarrow> Tx \<Rightarrow> Tx" where
  "updatedTx PROCESSED originalTx tx =
     \<lparr> status = merge_status PROCESSED originalTx tx,
       receipt = merge_receipt originalTx tx,
       props = spread (map_option props originalTx) ++ props tx \<rparr>"

section \<open>The account stores and the manager\<close>

text \<open>
  The snapshot of balance and nonce of an account, and a reward, as the manager
  builds them in \<open>updateAccountData\<close> and \<open>addReward\<close>.
\<close>

record StateSnapshot =
  counter :: nat
  balance :: nat

record AccountBalance =
  currentState :: StateSnapshot
  projectedState :: StateSnapshot

record Reward =
  layer :: nat
  amount :: nat
  layerReward :: nat
  coinbase :: string

text \<open>
  Modelled from the spec: the class \<open>AccountStateManager\<close> (\<open>./AccountState\<close>), the
  store of one account, is not part of the sources at hand. Section 4.1 of the
  specification gives its contract; the store holds the snapshot, the ledger of
  transaction records by transaction id, and the rewards in the order they came.
\<close>

record AccountStateManager =
  state :: "AccountBalance option"
  txs :: "jsdata js \<rightharpoonup> Tx"
  rewards :: "Reward list"

text \<open>
  Modelled from the spec: \<open>getTxById(id)\<close> of the missing class returns the stored
  record or none.
\<close>

definition getTxById :: "AccountStateManager \<Rightarrow> jsdata js \<Rightarrow> Tx option" where
  "getTxById acc i = txs acc i"

text \<open>
  Modelled from the spec: \<open>storeTransaction(tx)\<close> of the missing class inserts the
  record, or replaces the one stored under the same id. The id is the value read
  from the \<open>id\<close> property of the record, \<open>undefined\<close> when it has none.
\<close>

definition storeTransaction :: "AccountStateManager \<Rightarrow> Tx \<Rightarrow> AccountStateManager" where
  "storeTransaction acc tx = acc\<lparr>txs := (txs acc)(tx_id tx \<mapsto> tx)\<rparr>"

text \<open>Modelled from the spec: \<open>storeReward(reward)\<close> of the missing class appends.\<close>

definition storeRewardInStore :: "AccountStateManager \<Rightarrow> Reward \<Rightarrow> AccountStateManager" where
  "storeRewardInStore acc r = acc\<lparr>rewards := rewards acc @ [r]\<rparr>"

text \<open>
  Modelled from the spec: \<open>storeState(current, projected)\<close> of the missing class
  replaces the snapshot.
\<close>

definition storeState :: "AccountStateManager \<Rightarrow> AccountBalance \<Rightarrow> AccountStateManager" where
  "storeState acc b = acc\<lparr>state := Some b\<rparr>"

text \<open>
  The events pushed to the UI boundary by \<open>appStateUpdater\<close>
  (\<open>mainWindow.webContents.send\<close>), with their payload.
\<close>

datatype notification =
    T_M_UPDATE_ACCOUNT string AccountBalance
  | T_M_UPDATE_TXS string "jsdata js \<rightharpoonup> Tx"
  | T_M_UPDATE_REWARDS string "Reward list"

text \<open>The live feeds an account subscribes to; a cancel function is named by its feed.\<close>

datatype stream =
    MeshTransactions string
  | AccountDataStream string
  | TransactionsByAddress string
  | RewardsByCoinbase string
  | TxStateStream string "jsdata js set"

record KeyPair =
  publicKey :: string
  secretKey :: string

text \<open>
  The fields of \<open>TransactionManager\<close>, and two logs of what it did to the outside:
  \<open>sent\<close>, the notifications pushed to the window, and \<open>cancelled\<close>, the cancel
  functions it called.
\<close>

record TransactionManager =
  keychain :: "KeyPair list"
  accountStates :: "string \<rightharpoonup> AccountStateManager"
  unsubs :: "(string \<times> stream list) list"
  txStateStream :: "string \<rightharpoonup> stream"
  sent :: "notification list"
  cancelled :: "stream list"

text \<open>
  A transaction as the node delivers it (\<open>Transaction__Output\<close>): the manager reads
  its \<open>id\<close> and hands everything else to \<open>toTx\<close>.
\<close>

record Transaction_Output =
  t_id :: "nat list js"
  t_fields :: jsobj

text \<open>
  What the module imports from files that are not at hand: the enum value
  \<open>TxState.PROCESSED\<close>, the page size \<open>GRPC_QUERY_BATCH_SIZE\<close>, \<open>MAX_GAS\<close>,
  \<open>longToNumber\<close>, \<open>toHexString\<close>, \<open>toTxState(state, result?)\<close>, \<open>toTx\<close>, \<open>asTx\<close>,
  the derivation of an account address from a public key
  (\<open>Bech32.generateAddress(tpl.principal({ PublicKey: fromHexString(publicKey) }))\<close>),
  the address and the names of the single-signature template, and the constructor
  of a store, which may load what was persisted. \<open>nearest_double\<close> is not an import
  but the arithmetic of the runtime: the numbers are doubles, and a product
  beyond \<open>2^53\<close> is rounded to the nearest one.
\<close>

record deps =
  PROCESSED :: int
  GRPC_QUERY_BATCH_SIZE :: nat
  MAX_GAS :: int
  nearest_double :: "int \<Rightarrow> int"
  longToNumber :: "nat \<Rightarrow> nat"
  toHexString :: "nat list \<Rightarrow> string"
  toTxState :: "int js \<Rightarrow> int js \<Rightarrow> int"
  toTx :: "Transaction_Output \<Rightarrow> int js \<Rightarrow> Tx option"
  asTx :: "Tx \<Rightarrow> Tx"
  generateAddress :: "string \<Rightarrow> string"
  templateAddress :: string
  getTemplateName :: string
  getMethodName :: "int \<Rightarrow> string"
  newAccountStateManager :: "string \<Rightarrow> AccountStateManager"

text \<open>
  What can be thrown or returned as an error: a \<open>TypeError\<close> of the runtime, a
  promise of a collaborator rejected, an error reported by the node, and
  \<open>new Error('Can not retrieve a transaction data')\<close>.
\<close>

datatype error = TypeError | Rejected string | RemoteError string | NoTransactionData

section \<open>Notifications and stores\<close>

text \<open>
  \<open>this.accountStates[address].getState()\<close> and its siblings throw a
  \<open>TypeError\<close> when the manager holds no store for the address.
\<close>

definition updateAppStateAccount :: "TransactionManager \<Rightarrow> string \<Rightarrow> error + TransactionManager" where
  "updateAppStateAccount m address =
     (case accountStates m address of
        None \<Rightarrow> Inl TypeError
      | Some acc \<Rightarrow>
          (case state acc of
             None \<Rightarrow> Inr m
           | Some account \<Rightarrow> Inr (m\<lparr>sent := sent m @ [T_M_UPDATE_ACCOUNT address account]\<rparr>)))"

definition updateAppStateTxs :: "TransactionManager \<Rightarrow> string \<Rightarrow> error + TransactionManager" where
  "updateAppStateTxs m pk =
     (case accountStates m pk of
        None \<Rightarrow> Inl TypeError
      | Some acc \<Rightarrow> Inr (m\<lparr>sent := sent m @ [T_M_UPDATE_TXS pk (txs acc)]\<rparr>))"

definition updateAppStateRewards :: "TransactionManager \<Rightarrow> string \<Rightarrow> error + TransactionManager" where
  "updateAppStateRewards m pk =
     (case accountStates m pk of
        None \<Rightarrow> Inl TypeError
      | Some acc \<Rightarrow> Inr (m\<lparr>sent := sent m @ [T_M_UPDATE_REWARDS pk (rewards acc)]\<rparr>))"

text \<open>
  \<open>promise.then(() => notify(publicKey)).catch(log)\<close>: the notification runs when
  the promise of the store resolves, and whatever it throws is logged. \<open>resolved\<close>
  says that the promise has resolved by the end of the step that is modelled; when
  it is false the promise is still pending, or was rejected, and only the write to
  the store has happened.
\<close>

definition then_catch ::
  "bool \<Rightarrow> (TransactionManager \<Rightarrow> string \<Rightarrow> error + TransactionManager)
     \<Rightarrow> TransactionManager \<Rightarrow> string \<Rightarrow> TransactionManager" where
  "then_catch resolved notify m pk =
     (if resolved then (case notify m pk of Inl e \<Rightarrow> m | Inr m' \<Rightarrow> m') else m)"

text \<open>
  \<open>storeTx\<close> and \<open>storeReward\<close>, each run without anything interleaved between
  the write to the store and the settling of its promise.
\<close>

definition storeTx_write :: "TransactionManager \<Rightarrow> string \<Rightarrow> Tx \<Rightarrow> error + TransactionManager" where
  "storeTx_write m pk tx =
     (case accountStates m pk of
        None \<Rightarrow> Inl TypeError
      | Some acc \<Rightarrow> Inr (m\<lparr>accountStates := (accountStates m)(pk \<mapsto> storeTransaction acc tx)\<rparr>))"

definition storeTx :: "bool \<Rightarrow> TransactionManager \<Rightarrow> string \<Rightarrow> Tx \<Rightarrow> error + TransactionManager" where
  "storeTx resolved m pk tx =
     (case storeTx_write m pk tx of
        Inl e \<Rightarrow> Inl e
      | Inr m' \<Rightarrow> Inr (then_catch resolved updateAppStateTxs m' pk))"

definition storeReward_write :: "TransactionManager \<Rightarrow> string \<Rightarrow> Reward \<Rightarrow> error + TransactionManager" where
  "storeReward_write m pk r =
     (case accountStates m pk of
        None \<Rightarrow> Inl TypeError
      | Some acc \<Rightarrow> Inr (m\<lparr>accountStates := (accountStates m)(pk \<mapsto> storeRewardInStore acc r)\<rparr>))"

definition storeReward :: "bool \<Rightarrow> TransactionManager \<Rightarrow> string \<Rightarrow> Reward \<Rightarrow> error + TransactionManager" where
  "storeReward resolved m pk r =
     (case storeReward_write m pk r of
        Inl e \<Rightarrow> Inl e
      | Inr m' \<Rightarrow> Inr (then_catch resolved updateAppStateRewards m' pk))"

section \<open>\<open>upsertTransaction\<close>\<close>

text \<open>
  \<^verbatim>\<open>
    if (!this.accountStates[accountAddress]) return;
    const originalTx = this.accountStates[accountAddress].getTxById(tx.id);
    ...
    await this.storeTx(accountAddress, updatedTx);
    this.subscribeTransactions(accountAddress);
  \<close>
  The last line arms the debounce timer of \<open>subscribeTransactions\<close>; what the timer
  does when it fires is \<open>subscribeTransactions_fire\<close> below.
\<close>

definition upsertTransaction ::
  "deps \<Rightarrow> bool \<Rightarrow> TransactionManager \<Rightarrow> string \<Rightarrow> Tx \<Rightarrow> error + TransactionManager" where
  "upsertTransaction d resolved m accountAddress tx =
     (case accountStates m accountAddress of
        None \<Rightarrow> Inr m
      | Some acc \<Rightarrow>
          storeTx resolved m accountAddress
            (updatedTx (PROCESSED d) (getTxById acc (tx_id tx)) tx))"

section \<open>\<open>updateTxNote\<close>\<close>

text \<open>
  \<^verbatim>\<open>
    const tx = this.accountStates[address].getTxById(txId);
    return this.upsertTransaction(address)({ ...tx, note });
  \<close>
  \<open>{ ...tx, note }\<close> owns what the stored record owns, if there is one, and \<open>note\<close>.
\<close>

definition with_note :: "Tx option \<Rightarrow> string \<Rightarrow> Tx" where
  "with_note tx note =
     \<lparr> status = opt_status tx,
       receipt = opt_receipt tx,
       props = spread (map_option props tx) ++ [''note'' \<mapsto> Val (Str note)] \<rparr>"

definition updateTxNote ::
  "deps \<Rightarrow> bool \<Rightarrow> TransactionManager \<Rightarrow> string \<Rightarrow> string \<Rightarrow> string
     \<Rightarrow> error + TransactionManager" where
  "updateTxNote d resolved m address txId note =
     (case accountStates m address of
        None \<Rightarrow> Inl TypeError
      | Some acc \<Rightarrow>
          upsertTransaction d resolved m address (with_note (getTxById acc (Val (Str txId))) note))"

section \<open>Account data and rewards\<close>

text \<open>
  The account data pushed by the node: \<open>stateCurrent\<close> and \<open>stateProjected\<close>, each
  with a \<open>counter\<close> and a \<open>balance.value\<close>, any of them possibly missing.
  \<open>x || 0\<close> replaces a missing value (and \<open>0\<close>) by \<open>0\<close>.
\<close>

record AccountState_Output =
  out_counter :: "nat js"
  out_balance_value :: "nat js"

record Account_Output =
  stateCurrent :: "AccountState_Output js"
  stateProjected :: "AccountState_Output js"

fun or_zero :: "nat js \<Rightarrow> nat" where
  "or_zero (Val n) = n"
| "or_zero _ = 0"

definition snapshot_of :: "deps \<Rightarrow> AccountState_Output js \<Rightarrow> StateSnapshot" where
  "snapshot_of d st =
     (case st of
        Val x \<Rightarrow> \<lparr> counter = longToNumber d (or_zero (out_counter x)),
                   balance = longToNumber d (or_zero (out_balance_value x)) \<rparr>
      | _ \<Rightarrow> \<lparr> counter = longToNumber d 0, balance = longToNumber d 0 \<rparr>)"

text \<open>
  \<^verbatim>\<open>
    if (!this.accountStates[address]) return;
    ...
    this.accountStates[address] &&
      this.accountStates[address].storeState({ currentState, projectedState });
    this.updateAppStateAccount(address);
  \<close>
\<close>

definition updateAccountData ::
  "deps \<Rightarrow> TransactionManager \<Rightarrow> string \<Rightarrow> Account_Output \<Rightarrow> error + TransactionManager" where
  "updateAccountData d m address data =
     (case accountStates m address of
        None \<Rightarrow> Inr m
      | Some acc \<Rightarrow>
          updateAppStateAccount
            (m\<lparr>accountStates := (accountStates m)(address \<mapsto>
                 storeState acc \<lparr> currentState = snapshot_of d (stateCurrent data),
                                  projectedState = snapshot_of d (stateProjected data) \<rparr>)\<rparr>)
            address)"

text \<open>
  A reward as the node delivers it. The guard \<open>hasRequiredRewardFields\<close> is imported
  from a file that is not at hand; it is a parameter, and the four values below are
  what the code reads once the guard has passed.
  \<^verbatim>\<open>
    if (!reward || !hasRequiredRewardFields(reward)) return;
    const parsedReward: Reward = { layer: reward.layer.number, ... };
    this.storeReward(accountId, parsedReward);
  \<close>
\<close>

record Reward_Output =
  layer_number :: nat
  total_value :: nat
  layerReward_value :: nat
  coinbase_address :: string

definition addReward ::
  "deps \<Rightarrow> (Reward_Output \<Rightarrow> bool) \<Rightarrow> bool \<Rightarrow> TransactionManager \<Rightarrow> string
     \<Rightarrow> Reward_Output js \<Rightarrow> error + TransactionManager" where
  "addReward d hasRequiredRewardFields resolved m accountId reward =
     (case reward of
        Val r \<Rightarrow>
          if \<not> hasRequiredRewardFields r then Inr m
          else storeReward resolved m accountId
                 \<lparr> layer = layer_number r,
                   amount = longToNumber d (total_value r),
                   layerReward = longToNumber d (layerReward_value r),
                   coinbase = coinbase_address r \<rparr>
      | _ \<Rightarrow> Inr m)"

section \<open>The keychain and the tracked accounts\<close>

text \<open>\<open>Array.prototype.findIndex\<close>: the first index whose element passes, or \<open>-1\<close>.\<close>

fun findIndex :: "('a \<Rightarrow> bool) \<Rightarrow> 'a list \<Rightarrow> int" where
  "findIndex f [] = -1"
| "findIndex f (x # xs) =
     (if f x then 0 else (let i = findIndex f xs in if i = -1 then -1 else i + 1))"

text \<open>\<open>xs.slice(a, b)\<close> and \<open>xs.slice(a)\<close> for indices that are not negative.\<close>

definition slice :: "'a list \<Rightarrow> int \<Rightarrow> int \<Rightarrow> 'a list" where
  "slice xs a b = drop (nat a) (take (nat b) xs)"

definition slice_from :: "'a list \<Rightarrow> int \<Rightarrow> 'a list" where
  "slice_from xs a = drop (nat a) xs"

text \<open>
  The keychain that \<open>addAccount\<close> assigns:
  \<^verbatim>\<open>
    const idx = this.keychain.findIndex((kp) => kp.publicKey === publicKey);
    this.keychain = [
      ...(idx > -1
        ? this.keychain
            .slice(0, Math.max(0, idx - 1))
            .concat(this.keychain.slice(idx + 1))
        : this.keychain),
      keypair,
    ];
  \<close>
\<close>

definition addAccount_keychain :: "KeyPair list \<Rightarrow> KeyPair \<Rightarrow> KeyPair list" where
  "addAccount_keychain kc keypair =
     (let idx = findIndex (\<lambda>kp. publicKey kp = publicKey keypair) kc
      in (if idx > -1
          then slice kc 0 (max 0 (idx - 1)) @ slice_from kc (idx + 1)
          else kc) @ [keypair])"

text \<open>
  \<open>subscribeTransactions\<close> is debounced; this is its body, run when the timer fires:
  the feed of transaction states of the account is cancelled and opened again for
  the ids that the ledger holds now.
\<close>

definition cancel_txStateStream :: "TransactionManager \<Rightarrow> string \<Rightarrow> TransactionManager" where
  "cancel_txStateStream m address =
     (case txStateStream m address of
        None \<Rightarrow> m
      | Some s \<Rightarrow> m\<lparr>cancelled := cancelled m @ [s]\<rparr>)"

definition subscribeTransactions_fire ::
  "TransactionManager \<Rightarrow> string \<Rightarrow> error + TransactionManager" where
  "subscribeTransactions_fire m pk =
     (case accountStates m pk of
        None \<Rightarrow> Inl TypeError
      | Some acc \<Rightarrow>
          Inr ((cancel_txStateStream m pk)
                 \<lparr>txStateStream := (txStateStream m)(pk \<mapsto> TxStateStream pk (dom (txs acc)))\<rparr>))"

text \<open>
  \<open>subscribeAccount\<close>: the feed of transaction states is cancelled, the backfills are
  started (their answers arrive later, as events), and the four feeds of the account
  are opened, their cancel functions pushed on \<open>unsubs[address]\<close>. It throws when
  \<open>unsubs[address]\<close> or the store is missing; \<open>addAccount\<close> sets both just before.
  \<open>unsubs\<close> is an association list: \<open>Object.values\<close> walks it in insertion order.
\<close>

definition subscribeAccount :: "TransactionManager \<Rightarrow> string \<Rightarrow> error + TransactionManager" where
  "subscribeAccount m address =
     (let m1 = cancel_txStateStream m address in
      case map_of (unsubs m1) address of
        None \<Rightarrow> Inl TypeError
      | Some list \<Rightarrow>
          (case accountStates m1 address of
             None \<Rightarrow> Inl TypeError
           | Some acc \<Rightarrow>
               Inr (m1\<lparr>unsubs := AList.update address
                      (list @ [MeshTransactions address, AccountDataStream address,
                               TransactionsByAddress address, RewardsByCoinbase address])
                      (unsubs m1)\<rparr>)))"

definition addAccount :: "deps \<Rightarrow> TransactionManager \<Rightarrow> KeyPair \<Rightarrow> error + TransactionManager" where
  "addAccount d m keypair =
     (let address = generateAddress d (publicKey keypair);
          m1 = m\<lparr>keychain := addAccount_keychain (keychain m) keypair,
                 accountStates := (accountStates m)(address \<mapsto> newAccountStateManager d address)\<rparr>
      in case updateAppStateTxs m1 address of
           Inl e \<Rightarrow> Inl e
         | Inr m2 \<Rightarrow>
             (case updateAppStateRewards m2 address of
                Inl e \<Rightarrow> Inl e
              | Inr m3 \<Rightarrow>
                  subscribeAccount (m3\<lparr>unsubs := AList.update address [] (unsubs m3)\<rparr>) address))"

definition unsubscribeAllStreams :: "TransactionManager \<Rightarrow> TransactionManager" where
  "unsubscribeAllStreams m =
     m\<lparr>cancelled := cancelled m @ concat (map snd (unsubs m)), unsubs := []\<rparr>"

fun addAccounts :: "deps \<Rightarrow> TransactionManager \<Rightarrow> KeyPair list \<Rightarrow> error + TransactionManager" where
  "addAccounts d m [] = Inr m"
| "addAccounts d m (k # ks) =
     (case addAccount d m k of Inl e \<Rightarrow> Inl e | Inr m' \<Rightarrow> addAccounts d m' ks)"

definition setAccounts :: "deps \<Rightarrow> TransactionManager \<Rightarrow> KeyPair list \<Rightarrow> error + TransactionManager" where
  "setAccounts d m accounts =
     addAccounts d ((unsubscribeAllStreams m)\<lparr>keychain := [], accountStates := Map.empty\<rparr>) accounts"

section \<open>Transactions pushed by the node\<close>

record TransactionId =
  tid :: "nat list js"

record TransactionState_Output =
  ts_id :: "TransactionId js"
  ts_state :: "int js"

record TxStateUpdate =
  transaction :: "Transaction_Output js"
  transactionState :: "TransactionState_Output js"

text \<open>
  \<open>handleNewTx\<close>, the handler of the feed of transaction states:
  \<^verbatim>\<open>
    if (!tx.transaction || !tx.transactionState || !tx.transactionState.state)
      return;
    const newTx = toTx(tx.transaction, toTxState(tx.transactionState.state));
    if (!newTx) return;
    await this.upsertTransaction(publicKey)(newTx);
  \<close>
\<close>

definition handleNewTx ::
  "deps \<Rightarrow> bool \<Rightarrow> TransactionManager \<Rightarrow> string \<Rightarrow> TxStateUpdate \<Rightarrow> error + TransactionManager" where
  "handleNewTx d resolved m pk tx =
     (case (transaction tx, transactionState tx) of
        (Val t, Val ts) \<Rightarrow>
          (case ts_state ts of
             Val s \<Rightarrow>
               if s = 0 then Inr m
               else (case toTx d t (Val (toTxState d (Val s) Undefined)) of
                       None \<Rightarrow> Inr m
                     | Some newTx \<Rightarrow> upsertTransaction d resolved m pk newTx)
           | _ \<Rightarrow> Inr m)
      | _ \<Rightarrow> Inr m)"

text \<open>
  \<open>upsertTransactionFromMesh\<close>, the handler of the backfill pages and of the mesh
  feed. \<open>layerId\<close> is the layer object of the push, \<open>Val n\<close> when it is there with
  number \<open>n\<close>.
  \<^verbatim>\<open>
    if (!tx || !tx?.transaction?.id || !tx.layerId) return;
    const newTxData = toTx(tx.transaction, null);
    if (!newTxData) return;
    this.upsertTransaction(accountAddress)({
      ...newTxData,
      ...(tx.layerId?.number ? { layer: tx.layerId.number } : {}),
    });
  \<close>
\<close>

record MeshTransaction_Output =
  mt_transaction :: "Transaction_Output js"
  layerId :: "nat js"

definition upsertTransactionFromMesh ::
  "deps \<Rightarrow> bool \<Rightarrow> TransactionManager \<Rightarrow> string \<Rightarrow> MeshTransaction_Output js
     \<Rightarrow> error + TransactionManager" where
  "upsertTransactionFromMesh d resolved m accountAddress tx =
     (case tx of
        Val mt \<Rightarrow>
          (case (mt_transaction mt, layerId mt) of
             (Val t, Val n) \<Rightarrow>
               (case t_id t of
                  Val i \<Rightarrow>
                    (case toTx d t Null of
                       None \<Rightarrow> Inr m
                     | Some newTxData \<Rightarrow>
                         upsertTransaction d resolved m accountAddress
                           (newTxData\<lparr>props := props newTxData ++
                              (if n \<noteq> 0 then [''layer'' \<mapsto> Val (Num (int n))] else Map.empty)\<rparr>))
                | _ \<Rightarrow> Inr m)
           | _ \<Rightarrow> Inr m)
      | _ \<Rightarrow> Inr m)"

text \<open>
  The callback that \<open>subscribeAccount\<close> gives to \<open>watchTransactionsByAddress\<close>:
  \<^verbatim>\<open>
    if (!txRes.tx) return;
    const state = toTxState(TxState.PROCESSED, txRes.status || 0);
    const tx = toTx(txRes.tx, state);
    if (!tx) return;
    this.upsertTransaction(address)({ ...tx, layer: txRes.layer });
  \<close>
\<close>

record TransactionResult =
  tr_tx :: "Transaction_Output js"
  tr_status :: "int js"
  tr_layer :: "nat js"

fun or_zero_int :: "int js \<Rightarrow> int" where
  "or_zero_int (Val n) = n"
| "or_zero_int _ = 0"

fun num_of :: "nat js \<Rightarrow> jsdata js" where
  "num_of (Val n) = Val (Num (int n))"
| "num_of Null = Null"
| "num_of Undefined = Undefined"

definition onTransactionResult ::
  "deps \<Rightarrow> bool \<Rightarrow> TransactionManager \<Rightarrow> string \<Rightarrow> TransactionResult \<Rightarrow> error + TransactionManager" where
  "onTransactionResult d resolved m address txRes =
     (case tr_tx txRes of
        Val t \<Rightarrow>
          (case toTx d t (Val (toTxState d (Val (PROCESSED d)) (Val (or_zero_int (tr_status txRes))))) of
             None \<Rightarrow> Inr m
           | Some tx \<Rightarrow>
               upsertTransaction d resolved m address
                 (tx\<lparr>props := (props tx)(''layer'' \<mapsto> num_of (tr_layer txRes))\<rparr>))
      | _ \<Rightarrow> Inr m)"

section \<open>\<open>retrieveAccountData\<close>\<close>

text \<open>
  The answer of \<open>sendAccountDataQuery\<close>; \<open>query n\<close> is the answer to the attempt with
  \<open>retries = n\<close>. An error is an object, so \<open>Val e\<close> is truthy.
  \<^verbatim>\<open>
    const { data, error } = await this.glStateService.sendAccountDataQuery({ filter, offset: 0 });
    if (error && retries < 5) {
      await this.retrieveAccountData({ filter, handler, retries: retries + 1 });
    } else {
      data?.length > 0 && handler(data[0]);
    }
  \<close>
  The handler is \<open>updateAccountData(address)\<close> at both places that call it.
\<close>

record AccountDataResponse =
  ad_data :: "Account_Output list js"
  ad_error :: "error js"

fun truthy :: "error js \<Rightarrow> bool" where
  "truthy (Val e) = True"
| "truthy _ = False"

function retrieveAccountData ::
  "deps \<Rightarrow> (nat \<Rightarrow> AccountDataResponse) \<Rightarrow> TransactionManager \<Rightarrow> string \<Rightarrow> nat
     \<Rightarrow> error + TransactionManager" where
  "retrieveAccountData d query m address retries =
     (if truthy (ad_error (query retries)) \<and> retries < 5
      then retrieveAccountData d query m address (retries + 1)
      else (case ad_data (query retries) of
              Val (x # xs) \<Rightarrow> updateAccountData d m address x
            | _ \<Rightarrow> Inr m))"
  by pat_completeness auto
termination
  by (relation "measure (\<lambda>(d, query, m, address, retries). 5 - retries)") auto

declare retrieveAccountData.simps [simp del]

section \<open>Submitting a transaction\<close>

record SubmitResponse =
  sr_error :: "error js"
  sr_txstate :: "TransactionState_Output js"

record PublishResult =
  res_error :: "error option"
  res_tx :: "Tx option"

text \<open>
  What the collaborators answer during one submission: \<open>signed\<close> is the signed
  transaction, or what building the payload, \<open>getGenesisID\<close>, encoding or signing
  throws; \<open>response\<close> is the answer of \<open>submitTransaction\<close>, or its rejection;
  \<open>currentLayer\<close> that of \<open>getCurrentLayer\<close>; \<open>accountData\<close> the answers to the
  follow-up query of the account data.
\<close>

record publish_env =
  signed :: "error + nat list"
  response :: "error + SubmitResponse"
  currentLayer :: "error + nat"
  accountData :: "nat \<Rightarrow> AccountDataResponse"

text \<open>\<open>response.txstate?.id?.id\<close>: the bytes of the id, when all of it is there.\<close>

definition txstate_id :: "TransactionState_Output js \<Rightarrow> nat list option" where
  "txstate_id txstate =
     (case txstate of
        Val ts \<Rightarrow> (case ts_id ts of
                     Val i \<Rightarrow> (case tid i of Val b \<Rightarrow> Some b | _ \<Rightarrow> None)
                   | _ \<Rightarrow> None)
      | _ \<Rightarrow> None)"

text \<open>
  \<^verbatim>\<open>
    const error =
      response.error || response.txstate === null || !response.txstate.id?.id
        ? response.error || getTxResponseError()
        : null;
  \<close>
  \<open>response.txstate.id\<close> throws when \<open>txstate\<close> is \<open>undefined\<close>.
\<close>

definition response_error :: "SubmitResponse \<Rightarrow> error + error option" where
  "response_error r =
     (case sr_error r of
        Val e \<Rightarrow> Inr (Some e)
      | _ \<Rightarrow> (case sr_txstate r of
                Null \<Rightarrow> Inr (Some NoTransactionData)
              | Undefined \<Rightarrow> Inl TypeError
              | Val ts \<Rightarrow> (case txstate_id (Val ts) of
                             None \<Rightarrow> Inr (Some NoTransactionData)
                           | Some b \<Rightarrow> Inr None)))"

text \<open>\<open>response.error === null && response.txstate?.id?.id\<close>\<close>

definition response_txid :: "SubmitResponse \<Rightarrow> (nat list \<times> TransactionState_Output) option" where
  "response_txid r =
     (case (sr_error r, sr_txstate r) of
        (Null, Val ts) \<Rightarrow> map_option (\<lambda>b. (b, ts)) (txstate_id (Val ts))
      | _ \<Rightarrow> None)"

text \<open>
  The optimistic records. The public key and the destination of the payload are
  written as the strings they were made from.
\<close>

text \<open>
  \<open>a * b\<close> on numbers that hold integers: exact while the product is within
  \<open>2^53\<close>, the nearest double beyond.
\<close>

definition js_times :: "deps \<Rightarrow> int \<Rightarrow> int \<Rightarrow> int" where
  "js_times d a b =
     (if \<bar>a * b\<bar> \<le> 2 ^ 53 then a * b else nearest_double d (a * b))"

definition gas_of :: "deps \<Rightarrow> int \<Rightarrow> jsdata js" where
  "gas_of d fee = Val (Obj [(''gasPrice'', Val (Num fee)), (''maxGas'', Val (Num (MAX_GAS d))),
                            (''fee'', Val (Num (js_times d fee (MAX_GAS d))))])"

definition meta_of :: "deps \<Rightarrow> int \<Rightarrow> jsdata js" where
  "meta_of d method = Val (Obj [(''templateName'', Val (Str (getTemplateName d))),
                               (''methodName'', Val (Str (getMethodName d method)))])"

definition nonce_of :: "nat \<Rightarrow> jsdata js" where
  "nonce_of c = Val (Obj [(''Counter'', Val (Num (int c))), (''Bitfield'', Val (Num 0))])"

definition selfSpawnTx ::
  "deps \<Rightarrow> string \<Rightarrow> string \<Rightarrow> int \<Rightarrow> nat \<Rightarrow> nat \<Rightarrow> nat list \<Rightarrow> TransactionState_Output \<Rightarrow> Tx" where
  "selfSpawnTx d address pk fee cnt cur b ts =
     asTx d \<lparr> status = Val (toTxState d (ts_state ts) Undefined),
              receipt = None,
              props = [''id'' \<mapsto> Val (Str (toHexString d b)),
                       ''template'' \<mapsto> Val (Str (templateAddress d)),
                       ''method'' \<mapsto> Val (Num 0),
                       ''principal'' \<mapsto> Val (Str address),
                       ''gas'' \<mapsto> gas_of d fee,
                       ''payload'' \<mapsto> Val (Obj [(''Nonce'', nonce_of cnt),
                                                 (''GasPrice'', Val (Num fee)),
                                                 (''Arguments'', Val (Obj [(''PublicKey'', Val (Str pk))]))]),
                       ''meta'' \<mapsto> meta_of d 0,
                       ''layer'' \<mapsto> Val (Num (int cur))] \<rparr>"

record TxSendRequest =
  req_receiver :: string
  req_amount :: int
  req_fee :: int
  req_note :: "string js"

definition note_of :: "string js \<Rightarrow> jsobj" where
  "note_of n = (case n of Val t \<Rightarrow> (if t = [] then Map.empty else [''note'' \<mapsto> Val (Str t)])
                | _ \<Rightarrow> Map.empty)"

definition spendTx ::
  "deps \<Rightarrow> string \<Rightarrow> TxSendRequest \<Rightarrow> nat \<Rightarrow> nat \<Rightarrow> nat list \<Rightarrow> TransactionState_Output \<Rightarrow> Tx" where
  "spendTx d address fullTx cnt cur b ts =
     asTx d \<lparr> status = Val (toTxState d (ts_state ts) Undefined),
              receipt = None,
              props = [''id'' \<mapsto> Val (Str (toHexString d b)),
                       ''template'' \<mapsto> Val (Str (templateAddress d)),
                       ''method'' \<mapsto> Val (Num 1),
                       ''principal'' \<mapsto> Val (Str address),
                       ''gas'' \<mapsto> gas_of d (req_fee fullTx),
                       ''payload'' \<mapsto> Val (Obj [(''Arguments'',
                                                   Val (Obj [(''Destination'', Val (Str (req_receiver fullTx))),
                                                             (''Amount'', Val (Num (req_amount fullTx)))])),
                                                 (''Nonce'', nonce_of cnt),
                                                 (''GasPrice'', Val (Num (req_fee fullTx)))]),
                       ''meta'' \<mapsto> meta_of d 1,
                       ''layer'' \<mapsto> Val (Num (int cur))] ++ note_of (req_note fullTx) \<rparr>"

text \<open>
  What both submissions do once the optimistic record \<open>tx\<close> (or none) is composed:
  \<^verbatim>\<open>
    tx && this.upsertTransaction(address)(tx);
    this.retrieveAccountData({ filter: ..., handler: this.updateAccountData(address), retries: 0 });
    return { error, tx };
  \<close>
  Neither call is awaited and nothing catches what they reject with; the manager
  returned is the one after both have run.
\<close>

definition swallow :: "TransactionManager \<Rightarrow> error + TransactionManager \<Rightarrow> TransactionManager" where
  "swallow m r = (case r of Inl e \<Rightarrow> m | Inr m' \<Rightarrow> m')"

definition publish_finish ::
  "deps \<Rightarrow> publish_env \<Rightarrow> bool \<Rightarrow> TransactionManager \<Rightarrow> string \<Rightarrow> error option \<Rightarrow> Tx option
     \<Rightarrow> PublishResult \<times> TransactionManager" where
  "publish_finish d env resolved m address err tx =
     (let m1 = (case tx of
                  None \<Rightarrow> m
                | Some t \<Rightarrow> swallow m (upsertTransaction d resolved m address t));
          m2 = swallow m1 (retrieveAccountData d (accountData env) m1 address 0)
      in (\<lparr> res_error = err, res_tx = tx \<rparr>, m2))"

text \<open>\<open>catch (err) { return { error: err, tx: null }; }\<close>\<close>

definition caught :: "TransactionManager \<Rightarrow> error \<Rightarrow> PublishResult \<times> TransactionManager" where
  "caught m e = (\<lparr> res_error = Some e, res_tx = None \<rparr>, m)"

text \<open>
  \<open>publishSelfSpawn\<close>. \<open>this.keychain[accountIndex]\<close> is \<open>undefined\<close> beyond the
  keychain and \<open>getState()\<close> may give nothing; destructuring either throws.
\<close>

definition publishSelfSpawn ::
  "deps \<Rightarrow> publish_env \<Rightarrow> bool \<Rightarrow> TransactionManager \<Rightarrow> int \<Rightarrow> nat
     \<Rightarrow> PublishResult \<times> TransactionManager" where
  "publishSelfSpawn d env resolved m fee accountIndex =
     (if length (keychain m) \<le> accountIndex then caught m TypeError
      else
        let pk = publicKey (keychain m ! accountIndex);
            address = generateAddress d pk
        in case accountStates m address of
             None \<Rightarrow> caught m TypeError
           | Some acc \<Rightarrow>
        (case state acc of
             None \<Rightarrow> caught m TypeError
           | Some st \<Rightarrow>
        (case signed env of
             Inl e \<Rightarrow> caught m e
           | Inr sig \<Rightarrow>
        (case response env of
             Inl e \<Rightarrow> caught m e
           | Inr resp \<Rightarrow>
        (case response_error resp of
             Inl e \<Rightarrow> caught m e
           | Inr err \<Rightarrow>
        (case currentLayer env of
             Inl e \<Rightarrow> caught m e
           | Inr cur \<Rightarrow>
               publish_finish d env resolved m address err
                 (map_option (\<lambda>(b, ts). selfSpawnTx d address pk fee
                                (counter (projectedState st)) cur b ts)
                    (response_txid resp))))))))"

text \<open>\<open>publishSpendTx\<close>; its nonce is \<open>projectedState?.counter || 1\<close>.\<close>

definition publishSpendTx ::
  "deps \<Rightarrow> publish_env \<Rightarrow> bool \<Rightarrow> TransactionManager \<Rightarrow> TxSendRequest \<Rightarrow> nat
     \<Rightarrow> PublishResult \<times> TransactionManager" where
  "publishSpendTx d env resolved m fullTx accountIndex =
     (if length (keychain m) \<le> accountIndex then caught m TypeError
      else
        let pk = publicKey (keychain m ! accountIndex);
            address = generateAddress d pk
        in case accountStates m address of
             None \<Rightarrow> caught m TypeError
           | Some acc \<Rightarrow>
        (case state acc of
             None \<Rightarrow> caught m TypeError
           | Some st \<Rightarrow>
        (case signed env of
             Inl e \<Rightarrow> caught m e
           | Inr sig \<Rightarrow>
        (case response env of
             Inl e \<Rightarrow> caught m e
           | Inr resp \<Rightarrow>
        (case response_error resp of
             Inl e \<Rightarrow> caught m e
           | Inr err \<Rightarrow>
        (case currentLayer env of
             Inl e \<Rightarrow> caught m e
           | Inr cur \<Rightarrow>
               publish_finish d env resolved m address err
                 (map_option (\<lambda>(b, ts). spendTx d address fullTx
                                (if counter (projectedState st) = 0 then 1
                                 else counter (projectedState st)) cur b ts)
                    (response_txid resp))))))))"

section \<open>\<open>retrieveHistoricTxData\<close>\<close>

text \<open>
  The answer of \<open>requestMeshTransactions\<close>. \<open>request n offset\<close> is the answer to the
  request number \<open>n\<close> of the walk (counted from 0), which asks for \<open>offset\<close>.
  \<open>requests\<close> lists the offsets asked so far and \<open>s\<close> is what the handler has built;
  the handler is called on every record of a page, in order.
  \<^verbatim>\<open>
    const { data, totalResults, error } =
      await this.meshService.requestMeshTransactions(accountId, offset);
    if (error && retries < 5) {
      await this.retrieveHistoricTxData({ accountId, offset, handler, retries: retries + 1 });
    } else {
      data && data.length && data.forEach((tx) => handler(tx.meshTransaction));
      if (offset + GRPC_QUERY_BATCH_SIZE < totalResults) {
        await this.retrieveHistoricTxData({
          accountId, offset: offset + GRPC_QUERY_BATCH_SIZE, handler, retries: 0 });
      }
    }
  \<close>
  Nothing bounds the number of pages (the node may report ever more results, and
  the page size may be 0), so the walk is a partial function: \<open>None\<close> is a walk that
  does not end.
\<close>

record 'a MeshResponse =
  mr_data :: "'a list js"
  mr_totalResults :: "nat js"
  mr_error :: "error js"

text \<open>\<open>n < totalResults\<close>, false when \<open>totalResults\<close> is \<open>undefined\<close> or \<open>null\<close>.\<close>

definition more_after :: "nat \<Rightarrow> nat js \<Rightarrow> bool" where
  "more_after n totalResults = (case totalResults of Val t \<Rightarrow> n < t | _ \<Rightarrow> False)"

definition forEach :: "('s \<Rightarrow> 'a \<Rightarrow> 's) \<Rightarrow> 's \<Rightarrow> 'a list js \<Rightarrow> 's" where
  "forEach handler s xs = (case xs of Val ys \<Rightarrow> foldl handler s ys | _ \<Rightarrow> s)"

partial_function (option) retrieveHistoricTxData ::
  "deps \<Rightarrow> (nat \<Rightarrow> nat \<Rightarrow> 'a MeshResponse) \<Rightarrow> ('s \<Rightarrow> 'a \<Rightarrow> 's) \<Rightarrow> nat \<Rightarrow> nat
     \<Rightarrow> nat list \<Rightarrow> 's \<Rightarrow> (nat list \<times> 's) option" where
  "retrieveHistoricTxData d request handler offset retries requests s =
     (let r = request (length requests) offset in
      if truthy (mr_error r) \<and> retries < 5
      then retrieveHistoricTxData d request handler offset (retries + 1) (requests @ [offset]) s
      else if more_after (offset + GRPC_QUERY_BATCH_SIZE d) (mr_totalResults r)
           then retrieveHistoricTxData d request handler (offset + GRPC_QUERY_BATCH_SIZE d) 0
                  (requests @ [offset]) (forEach handler s (mr_data r))
           else Some (requests @ [offset], forEach handler s (mr_data r)))"

section \<open>Callbacks that run later\<close>

text \<open>
  The manager runs on one thread: a callback runs to its end before the next one
  starts, and an asynchronous function gives way at each \<open>await\<close>. Every piece of
  work that can still be in flight when the tracked accounts change is one of the
  callbacks below, for some address and payload: a push of one of the feeds or an
  item of a backfill page reaching its handler, a direct call of
  \<open>upsertTransaction\<close> by a submission that was waiting for the node, the promise
  of a store settling, the debounce timer of \<open>subscribeTransactions\<close> firing.
\<close>

datatype event =
    TxStatePushed string TxStateUpdate
  | MeshTxPushed string "MeshTransaction_Output js"
  | TxResultPushed string TransactionResult
  | UpsertCalled string Tx
  | AccountDataPushed string Account_Output
  | RewardPushed string "Reward_Output js"
  | StoreTxSettled string bool
  | StoreRewardSettled string bool
  | SubscribeTimerFired string

text \<open>
  One callback. The handlers run up to the write to the store (\<open>resolved\<close> is
  false); the notification belongs to the callback of the promise.
\<close>

fun step ::
  "deps \<Rightarrow> (Reward_Output \<Rightarrow> bool) \<Rightarrow> TransactionManager \<Rightarrow> event \<Rightarrow> error + TransactionManager" where
  "step d guard m (TxStatePushed a u) = handleNewTx d False m a u"
| "step d guard m (MeshTxPushed a t) = upsertTransactionFromMesh d False m a t"
| "step d guard m (TxResultPushed a r) = onTransactionResult d False m a r"
| "step d guard m (UpsertCalled a tx) = upsertTransaction d False m a tx"
| "step d guard m (AccountDataPushed a x) = updateAccountData d m a x"
| "step d guard m (RewardPushed a r) = addReward d guard False m a r"
| "step d guard m (StoreTxSettled a ok) = Inr (then_catch ok updateAppStateTxs m a)"
| "step d guard m (StoreRewardSettled a ok) = Inr (then_catch ok updateAppStateRewards m a)"
| "step d guard m (SubscribeTimerFired a) = subscribeTransactions_fire m a"

text \<open>
  Callbacks one after the other. A callback that throws has not written anything
  before it throws, and the next one finds the manager as it was.
\<close>

fun run ::
  "deps \<Rightarrow> (Reward_Output \<Rightarrow> bool) \<Rightarrow> TransactionManager \<Rightarrow> event list \<Rightarrow> TransactionManager" where
  "run d guard m [] = m"
| "run d guard m (e # es) = run d guard (swallow m (step d guard m e)) es"

section \<open>Fixtures: delivery in order, what is stored, example values\<close>

text \<open>Updates delivered one after the other, each reconciliation run to its end.\<close>

fun upsertAll :: "deps \<Rightarrow> TransactionManager \<Rightarrow> string \<Rightarrow> Tx list \<Rightarrow> error + TransactionManager" where
  "upsertAll d m a [] = Inr m"
| "upsertAll d m a (u # us) =
     (case upsertTransaction d True m a u of
        Inl e \<Rightarrow> Inl e
      | Inr m' \<Rightarrow> upsertAll d m' a us)"

text \<open>The record that the store of account \<open>a\<close> holds under id \<open>i\<close> after a call.\<close>

definition storedTx :: "error + TransactionManager \<Rightarrow> string \<Rightarrow> jsdata js \<Rightarrow> Tx option" where
  "storedTx r a i =
     (case r of
        Inl e \<Rightarrow> None
      | Inr m \<Rightarrow> (case accountStates m a of None \<Rightarrow> None | Some acc \<Rightarrow> getTxById acc i))"

text \<open>Two objects agree when every key that both own has the same value in both.\<close>

definition agree :: "jsobj \<Rightarrow> jsobj \<Rightarrow> bool" where
  "agree p q = (\<forall>k \<in> dom p \<inter> dom q. p k = q k)"

definition agree_opt :: "jsobj option \<Rightarrow> jsobj option \<Rightarrow> bool" where
  "agree_opt p q = (case (p, q) of (Some a, Some b) \<Rightarrow> agree a b | _ \<Rightarrow> True)"

text \<open>
  The manager as its field initialisers leave it, an empty store, and a manager
  that tracks the single account \<open>a\<close> with the store \<open>acc\<close>.
\<close>

definition initial :: TransactionManager where
  "initial = \<lparr> keychain = [], accountStates = Map.empty, unsubs = [],
               txStateStream = Map.empty, sent = [], cancelled = [] \<rparr>"

definition emptyStore :: AccountStateManager where
  "emptyStore = \<lparr> state = None, txs = Map.empty, rewards = [] \<rparr>"

definition tracking :: "string \<Rightarrow> AccountStateManager \<Rightarrow> TransactionManager" where
  "tracking a acc = initial\<lparr>accountStates := [a \<mapsto> acc]\<rparr>"

text \<open>
  Example values for the imports. The specification orders the statuses
  pending < processed < success/failure/invalid; \<open>4\<close>, \<open>6\<close> and \<open>76\<close>, \<open>77\<close> below
  are a pending, the processed and two terminal statuses in that order.
\<close>

definition deps0 :: deps where
  "deps0 = \<lparr> PROCESSED = 6, GRPC_QUERY_BATCH_SIZE = 100, MAX_GAS = 500,
             nearest_double = (\<lambda>n. n), longToNumber = (\<lambda>n. n), toHexString = map (\<lambda>b. char_of b),
             toTxState = (\<lambda>s r. case s of Val n \<Rightarrow> n | _ \<Rightarrow> 0),
             toTx = (\<lambda>t s. Some \<lparr> status = s, receipt = None, props = t_fields t \<rparr>),
             asTx = (\<lambda>t. t), generateAddress = (\<lambda>pk. pk),
             templateAddress = ''sm1template'', getTemplateName = ''SingleSig'',
             getMethodName = (\<lambda>n. if n = 0 then ''SelfSpawn'' else ''Spend''),
             newAccountStateManager = (\<lambda>a. emptyStore) \<rparr>"

definition txWith :: "string \<Rightarrow> int \<Rightarrow> Tx" where
  "txWith i s = \<lparr> status = Val s, receipt = None, props = [''id'' \<mapsto> Val (Str i)] \<rparr>"

text \<open>The ledgers of all accounts, and a record that holds a note and nothing else.\<close>

definition ledgers :: "TransactionManager \<Rightarrow> string \<Rightarrow> (jsdata js \<rightharpoonup> Tx) option" where
  "ledgers m a = map_option txs (accountStates m a)"

definition noteRecord :: "string \<Rightarrow> Tx" where
  "noteRecord note = \<lparr> status = Undefined, receipt = None, props = [''note'' \<mapsto> Val (Str note)] \<rparr>"



definition notedStore :: AccountStateManager where
  "notedStore = storeTransaction (storeTransaction emptyStore (txWith ''u'' 6)) (noteRecord ''old'')"

text \<open>
  Key pairs, a store with a balance, a manager that tracks account \<open>A\<close>, and what
  the collaborators answer when the node accepts a submission without giving an id.
\<close>

definition keypair :: "string \<Rightarrow> string \<Rightarrow> KeyPair" where
  "keypair pk sk = \<lparr> publicKey = pk, secretKey = sk \<rparr>"

definition funded :: AccountStateManager where
  "funded = \<lparr> state = Some \<lparr> currentState = \<lparr> counter = 0, balance = 10 \<rparr>,
                             projectedState = \<lparr> counter = 0, balance = 10 \<rparr> \<rparr>,
              txs = Map.empty, rewards = [] \<rparr>"

definition managerA :: TransactionManager where
  "managerA = initial\<lparr>keychain := [keypair ''A'' ''1''], accountStates := [''A'' \<mapsto> funded]\<rparr>"

definition accountData1 :: Account_Output where
  "accountData1 = \<lparr> stateCurrent = Val \<lparr> out_counter = Val 1, out_balance_value = Val 9 \<rparr>,
                    stateProjected = Undefined \<rparr>"

definition env_no_id :: publish_env where
  "env_no_id = \<lparr> signed = Inr [1, 2, 3],
                 response = Inr \<lparr> sr_error = Null,
                                  sr_txstate = Val \<lparr> ts_id = Null, ts_state = Val 4 \<rparr> \<rparr>,
                 currentLayer = Inr 7,
                 accountData = (\<lambda>n. \<lparr> ad_data = Val [accountData1], ad_error = Null \<rparr>) \<rparr>"

definition reward1 :: Reward_Output where
  "reward1 = \<lparr> layer_number = 1, total_value = 5, layerReward_value = 1, coinbase_address = ''a'' \<rparr>"

text \<open>
  Answers of the mesh service: a page of records with the total it reports, and a
  failure. \<open>onPage\<close> is a handler that keeps what it is given.
\<close>

definition page :: "'a list \<Rightarrow> nat \<Rightarrow> 'a MeshResponse" where
  "page xs t = \<lparr> mr_data = Val xs, mr_totalResults = Val t, mr_error = Null \<rparr>"

definition failure :: "nat js \<Rightarrow> 'a MeshResponse" where
  "failure t = \<lparr> mr_data = Undefined, mr_totalResults = t,
                 mr_error = Val (RemoteError ''unavailable'') \<rparr>"

definition onPage :: "'a list \<Rightarrow> 'a \<Rightarrow> 'a list" where
  "onPage delivered x = delivered @ [x]"

text \<open>
  A mesh service that holds 250 records, numbered from 0, and fails the first two
  requests for offset 100; one that fails every request for offset 100 and still
  reports the total; one that fails them without a total.
\<close>

definition records :: "nat \<Rightarrow> nat \<Rightarrow> nat list" where
  "records offset n = map (\<lambda>i. offset + i) [0..<n]"

definition flaky :: "nat \<Rightarrow> nat \<Rightarrow> nat MeshResponse" where
  "flaky n offset =
     (if offset = 100 \<and> n < 3 then failure Undefined
      else page (records offset (if offset = 200 then 50 else 100)) 250)"

definition broken_with_total :: "nat \<Rightarrow> nat \<Rightarrow> nat MeshResponse" where
  "broken_with_total n offset =
     (if offset = 100 then failure (Val 250) else page [offset, offset + 1] 250)"

definition broken :: "nat \<Rightarrow> nat \<Rightarrow> nat MeshResponse" where
  "broken n offset =
     (if offset = 100 then failure Undefined else page [offset, offset + 1] 250)"

text \<open>
  The address an event is about; the manager after \<open>addAccount\<close> of the key pair
  \<open>A\<close> on the initial manager, and after \<open>setAccounts([])\<close> on that.
\<close>

fun event_address :: "event \<Rightarrow> string" where
  "event_address (TxStatePushed a u) = a"
| "event_address (MeshTxPushed a t) = a"
| "event_address (TxResultPushed a r) = a"
| "event_address (UpsertCalled a tx) = a"
| "event_address (AccountDataPushed a x) = a"
| "event_address (RewardPushed a r) = a"
| "event_address (StoreTxSettled a ok) = a"
| "event_address (StoreRewardSettled a ok) = a"
| "event_address (SubscribeTimerFired a) = a"

definition trackedA :: TransactionManager where
  "trackedA = \<lparr> keychain = [keypair ''A'' ''1''],
                accountStates = [''A'' \<mapsto> emptyStore],
                unsubs = [(''A'', [MeshTransactions ''A'', AccountDataStream ''A'',
                                   TransactionsByAddress ''A'', RewardsByCoinbase ''A''])],
                txStateStream = Map.empty,
                sent = [T_M_UPDATE_TXS ''A'' Map.empty, T_M_UPDATE_REWARDS ''A'' []],
                cancelled = [] \<rparr>"

definition removedA :: TransactionManager where
  "removedA = \<lparr> keychain = [],
                accountStates = Map.empty,
                unsubs = [],
                txStateStream = Map.empty,
                sent = [T_M_UPDATE_TXS ''A'' Map.empty, T_M_UPDATE_REWARDS ''A'' []],
                cancelled = [MeshTransactions ''A'', AccountDataStream ''A'',
                             TransactionsByAddress ''A'', RewardsByCoinbase ''A''] \<rparr>"

section \<open>Properties of the merge\<close>

lemma spread_simps: "spread None = Map.empty" "spread (Some x) = x"
  by (simp_all add: spread_def)

lemma agree_comm: "agree p q \<Longrightarrow> p ++ q = q ++ p"
proof (rule ext)
  fix k assume a: "agree p q"
  show "(p ++ q) k = (q ++ p) k"
  proof (cases "p k")
    case None then show ?thesis by (simp add: map_add_def split: option.splits)
  next
    case (Some v)
    show ?thesis
    proof (cases "q k")
      case None with Some show ?thesis by (simp add: map_add_def)
    next
      case (Some w)
      with \<open>p k = Some v\<close> a have "p k = q k" unfolding agree_def by blast
      with Some \<open>p k = Some v\<close> show ?thesis by (simp add: map_add_def)
    qed
  qed
qed

lemma agree_add:
  assumes "agree p q"
  shows "(b ++ p) ++ q = (b ++ q) ++ p"
proof -
  have "b ++ (p ++ q) = b ++ (q ++ p)"
    using agree_comm[OF assms] by simp
  then show ?thesis by (simp only: map_add_assoc)
qed

lemma status_comm:
  assumes "status u1 = Val s1" "status u2 = Val s2" "P < s1 \<or> P < s2 \<or> s1 = s2"
  shows "merge_status P (Some (updatedTx P o0 u1)) u2 = merge_status P (Some (updatedTx P o0 u2)) u1"
  using assms
  by (cases "opt_status o0") (auto simp: merge_status_def updatedTx_def js_gt_def opt_status_def)

lemma receipt_comm:
  assumes "agree_opt (receipt u1) (receipt u2)"
  shows "merge_receipt (Some (updatedTx P o0 u1)) u2 = merge_receipt (Some (updatedTx P o0 u2)) u1"
proof (cases "receipt u1")
  case None
  then show ?thesis
    by (simp add: merge_receipt_def updatedTx_def opt_receipt_def spread_simps split: option.splits)
next
  case r1: (Some r1)
  show ?thesis
  proof (cases "receipt u2")
    case None
    with r1 show ?thesis
      by (simp add: merge_receipt_def updatedTx_def opt_receipt_def spread_simps split: option.splits)
  next
    case (Some r2)
    with r1 assms have "agree r1 r2" by (simp add: agree_opt_def)
    from agree_add[OF this] r1 Some show ?thesis
      by (simp add: merge_receipt_def updatedTx_def opt_receipt_def spread_simps)
  qed
qed

lemma props_comm:
  assumes "agree (props u1) (props u2)"
  shows "props (updatedTx P (Some (updatedTx P o0 u1)) u2) = props (updatedTx P (Some (updatedTx P o0 u2)) u1)"
  using agree_add[OF assms] by (simp add: updatedTx_def spread_simps)

lemma updatedTx_comm:
  assumes "status u1 = Val s1" "status u2 = Val s2" "P < s1 \<or> P < s2 \<or> s1 = s2"
    "agree_opt (receipt u1) (receipt u2)" "agree (props u1) (props u2)"
  shows "updatedTx P (Some (updatedTx P o0 u1)) u2 = updatedTx P (Some (updatedTx P o0 u2)) u1"
proof -
  have "status (updatedTx P (Some (updatedTx P o0 u1)) u2) = status (updatedTx P (Some (updatedTx P o0 u2)) u1)"
    using status_comm[OF assms(1,2,3)] by (simp add: updatedTx_def)
  moreover have "receipt (updatedTx P (Some (updatedTx P o0 u1)) u2) = receipt (updatedTx P (Some (updatedTx P o0 u2)) u1)"
    using receipt_comm[OF assms(4)] by (simp add: updatedTx_def)
  ultimately show ?thesis using props_comm[OF assms(5)]
    by (intro Tx.equality) simp_all
qed

section \<open>Properties of \<open>upsertTransaction\<close>\<close>

lemmas merge_defs = updatedTx_def merge_status_def merge_receipt_def opt_status_def
  opt_receipt_def js_gt_def spread_def tx_id_def get_prop_def

lemmas store_defs = getTxById_def storeTransaction_def storeRewardInStore_def storeState_def
  storeTx_def storeTx_write_def storeReward_def storeReward_write_def then_catch_def
  updateAppStateTxs_def updateAppStateRewards_def updateAppStateAccount_def

lemmas fixture_defs = deps0_def tracking_def emptyStore_def txWith_def initial_def storedTx_def

lemma tx_id_updated:
  "props tx ''id'' = Some i \<Longrightarrow> tx_id tx = i \<and> tx_id (updatedTx P orig tx) = i"
  by (simp add: tx_id_def get_prop_def updatedTx_def)

lemma upsertTransaction_absent:
  "accountStates m a = None \<Longrightarrow> upsertTransaction d p m a tx = Inr m"
  by (simp add: upsertTransaction_def)

lemma upsertTransaction_present:
  assumes "accountStates m a = Some acc"
  shows "\<exists>ns. upsertTransaction d p m a tx =
     Inr (m\<lparr>accountStates := (accountStates m)
               (a \<mapsto> storeTransaction acc (updatedTx (PROCESSED d) (getTxById acc (tx_id tx)) tx)),
            sent := sent m @ ns\<rparr>)"
proof (cases p)
  case True
  with assms show ?thesis
    by (intro exI[of _ "[T_M_UPDATE_TXS a (txs (storeTransaction acc
          (updatedTx (PROCESSED d) (getTxById acc (tx_id tx)) tx)))]"])
       (simp add: upsertTransaction_def storeTx_def storeTx_write_def then_catch_def
          updateAppStateTxs_def)
next
  case False
  with assms show ?thesis
    by (intro exI[of _ "[]"])
       (simp add: upsertTransaction_def storeTx_def storeTx_write_def then_catch_def)
qed

lemma stored_after_upsert:
  assumes "accountStates m a = Some acc" "props tx ''id'' = Some i"
  shows "storedTx (upsertTransaction d p m a tx) a i =
     Some (updatedTx (PROCESSED d) (getTxById acc i) tx)"
proof -
  from upsertTransaction_present[OF assms(1), of d p tx] obtain ns where
    "upsertTransaction d p m a tx =
     Inr (m\<lparr>accountStates := (accountStates m)
               (a \<mapsto> storeTransaction acc (updatedTx (PROCESSED d) (getTxById acc (tx_id tx)) tx)),
            sent := sent m @ ns\<rparr>)" by blast
  then show ?thesis using tx_id_updated[OF assms(2)]
    by (simp add: storedTx_def getTxById_def storeTransaction_def)
qed

lemma upsertAll_two_present:
  assumes "accountStates m a = Some acc" "props u1 ''id'' = Some i" "props u2 ''id'' = Some i"
  shows "storedTx (upsertAll d m a [u1, u2]) a i =
     Some (updatedTx (PROCESSED d) (Some (updatedTx (PROCESSED d) (getTxById acc i) u1)) u2)"
proof -
  let ?U = "updatedTx (PROCESSED d) (getTxById acc i) u1"
  from upsertTransaction_present[OF assms(1), of d True u1] obtain ns where
    m1: "upsertTransaction d True m a u1 =
     Inr (m\<lparr>accountStates := (accountStates m) (a \<mapsto> storeTransaction acc ?U),
            sent := sent m @ ns\<rparr>)" (is "_ = Inr ?m1")
    using tx_id_updated[OF assms(2)] by auto
  have acc1: "accountStates ?m1 a = Some (storeTransaction acc ?U)" by simp
  have "getTxById (storeTransaction acc ?U) i = Some ?U"
    using tx_id_updated[OF assms(2)] by (simp add: getTxById_def storeTransaction_def)
  with stored_after_upsert[OF acc1 assms(3), of d True] m1 show ?thesis
    by (simp add: storedTx_def split: sum.splits)
qed

text \<open>
  Claim C1, as the specification states it: two updates with the same transaction
  id, applied through \<open>upsertTransaction\<close> in either order from the same stored
  record, leave the same stored record. The code does not do that: every field of
  the later update wins, and a status below the terminal ones is overwritten by
  whatever arrives. Here the store is empty and the two updates differ in their
  status only, pending (4) and processed (6): the order decides what is stored.
\<close>

theorem C1_order_matters:
  "storedTx (upsertAll deps0 (tracking ''a'' emptyStore) ''a'' [txWith ''t'' 4, txWith ''t'' 6])
       ''a'' (Val (Str ''t''))
     = Some (txWith ''t'' 6)
   \<and> storedTx (upsertAll deps0 (tracking ''a'' emptyStore) ''a'' [txWith ''t'' 6, txWith ''t'' 4])
       ''a'' (Val (Str ''t''))
     = Some (txWith ''t'' 4)
   \<and> txWith ''t'' 6 \<noteq> txWith ''t'' 4"
  by (simp add: upsertTransaction_def merge_defs store_defs fixture_defs)

text \<open>
  A field that both updates carry is decided by the order as well: the later
  \<open>layer\<close> is the one that stays.
\<close>

lemma later_field_wins:
  "map_option (\<lambda>t. props t ''layer'')
     (storedTx (upsertAll deps0 (tracking ''a'' emptyStore) ''a''
        [(txWith ''t'' 4)\<lparr>props := (props (txWith ''t'' 4))(''layer'' \<mapsto> Val (Num 1))\<rparr>,
         (txWith ''t'' 4)\<lparr>props := (props (txWith ''t'' 4))(''layer'' \<mapsto> Val (Num 2))\<rparr>])
       ''a'' (Val (Str ''t''))) = Some (Some (Val (Num 2)))
   \<and> map_option (\<lambda>t. props t ''layer'')
     (storedTx (upsertAll deps0 (tracking ''a'' emptyStore) ''a''
        [(txWith ''t'' 4)\<lparr>props := (props (txWith ''t'' 4))(''layer'' \<mapsto> Val (Num 2))\<rparr>,
         (txWith ''t'' 4)\<lparr>props := (props (txWith ''t'' 4))(''layer'' \<mapsto> Val (Num 1))\<rparr>])
       ''a'' (Val (Str ''t''))) = Some (Some (Val (Num 1)))"
  by (simp add: upsertTransaction_def merge_defs store_defs fixture_defs)

text \<open>
  Claim C1, amended: two updates that own the same \<open>id\<close>, whose statuses are
  \<open>TxState\<close> numbers that are equal or of which at least one is terminal (above
  \<open>PROCESSED\<close>), and that agree on every property and on every receipt field both
  of them carry, leave the same stored record in either order, whatever was
  stored before.
\<close>

theorem C1_merge_commutes:
  assumes "props u1 ''id'' = Some i" "props u2 ''id'' = Some i"
    and "status u1 = Val s1" "status u2 = Val s2"
    and "PROCESSED d < s1 \<or> PROCESSED d < s2 \<or> s1 = s2"
    and "agree_opt (receipt u1) (receipt u2)" "agree (props u1) (props u2)"
  shows "storedTx (upsertAll d m a [u1, u2]) a i = storedTx (upsertAll d m a [u2, u1]) a i"
proof (cases "accountStates m a")
  case None
  then show ?thesis by (simp add: upsertTransaction_absent)
next
  case (Some acc)
  show ?thesis
    using upsertAll_two_present[OF Some assms(1,2)] upsertAll_two_present[OF Some assms(2,1)]
      updatedTx_comm[OF assms(3,4,5,6,7)]
    by simp
qed

theorem C1_merge_commutes_witness:
  "storedTx (upsertAll deps0 (tracking ''a'' (storeTransaction emptyStore (txWith ''t'' 6))) ''a''
       [\<lparr> status = Val 4, receipt = None,
          props = [''id'' \<mapsto> Val (Str ''t''), ''note'' \<mapsto> Val (Str ''rent'')] \<rparr>,
        \<lparr> status = Val 76, receipt = Some [''fee'' \<mapsto> Val (Num 3)],
          props = [''id'' \<mapsto> Val (Str ''t''), ''layer'' \<mapsto> Val (Num 9)] \<rparr>]) ''a'' (Val (Str ''t''))
   = storedTx (upsertAll deps0 (tracking ''a'' (storeTransaction emptyStore (txWith ''t'' 6))) ''a''
       [\<lparr> status = Val 76, receipt = Some [''fee'' \<mapsto> Val (Num 3)],
          props = [''id'' \<mapsto> Val (Str ''t''), ''layer'' \<mapsto> Val (Num 9)] \<rparr>,
        \<lparr> status = Val 4, receipt = None,
          props = [''id'' \<mapsto> Val (Str ''t''), ''note'' \<mapsto> Val (Str ''rent'')] \<rparr>]) ''a'' (Val (Str ''t''))"
  using C1_merge_commutes[of
      "\<lparr> status = Val 4, receipt = None,
         props = [''id'' \<mapsto> Val (Str ''t''), ''note'' \<mapsto> Val (Str ''rent'')] \<rparr>"
      "Val (Str ''t'')"
      "\<lparr> status = Val 76, receipt = Some [''fee'' \<mapsto> Val (Num 3)],
         props = [''id'' \<mapsto> Val (Str ''t''), ''layer'' \<mapsto> Val (Num 9)] \<rparr>"
      4 76 deps0 "tracking ''a'' (storeTransaction emptyStore (txWith ''t'' 6))" "''a''"]
  by (simp add: deps0_def agree_def agree_opt_def)

text \<open>
  Claim C2, as the specification states it: once the stored status is terminal, no
  merge changes it, whatever the incoming status. The code keeps the stored status
  only while it is strictly greater than the incoming one: a stored terminal
  status 76 is replaced by an incoming 77.
\<close>

theorem C2_terminal_status_replaced:
  "map_option status
     (storedTx (Inr (tracking ''a'' (storeTransaction emptyStore (txWith ''t'' 76))))
        ''a'' (Val (Str ''t''))) = Some (Val 76)
   \<and> PROCESSED deps0 < 76
   \<and> map_option status
     (storedTx (upsertTransaction deps0 True
          (tracking ''a'' (storeTransaction emptyStore (txWith ''t'' 76))) ''a'' (txWith ''t'' 77))
        ''a'' (Val (Str ''t''))) = Some (Val 77)"
  by (simp add: upsertTransaction_def merge_defs store_defs fixture_defs)

text \<open>
  Claim C2, amended: when the stored status is terminal (a number above
  \<open>PROCESSED\<close>) and the incoming status is a \<open>TxState\<close> number that is not greater
  than the stored one, the merge leaves the status unchanged; an incoming status
  greater than the stored one replaces it.
\<close>

theorem C2_terminal_status_kept:
  assumes "accountStates m a = Some acc" "props tx ''id'' = Some i"
    and "getTxById acc i = Some orig" "status orig = Val s" "PROCESSED d < s"
    and "status tx = Val t"
  shows "map_option status (storedTx (upsertTransaction d p m a tx) a i)
         = Some (if t \<le> s then Val s else Val t)"
  using stored_after_upsert[OF assms(1,2), of d p] assms(3-)
  by (auto simp: updatedTx_def merge_status_def opt_status_def js_gt_def)

theorem C2_terminal_status_kept_witness:
  "map_option status
     (storedTx (upsertTransaction deps0 True
          (tracking ''a'' (storeTransaction emptyStore (txWith ''t'' 77))) ''a'' (txWith ''t'' 4))
        ''a'' (Val (Str ''t''))) = Some (Val 77)"
  using C2_terminal_status_kept[of "tracking ''a'' (storeTransaction emptyStore (txWith ''t'' 77))"
      "''a''" "storeTransaction emptyStore (txWith ''t'' 77)" "txWith ''t'' 4" "Val (Str ''t'')"
      "txWith ''t'' 77" 77 deps0 4 True]
  by (simp add: merge_defs store_defs fixture_defs)

text \<open>
  Claim C3, as the specification states it: a stored record with status processed
  that receives an update with status pending keeps status processed. The guard of
  the code protects only a status strictly above \<open>PROCESSED\<close>: with processed (6)
  stored and pending (4) incoming, the stored status becomes pending.
\<close>

theorem C3_processed_regresses:
  "map_option status
     (storedTx (Inr (tracking ''a'' (storeTransaction emptyStore (txWith ''t'' 6))))
        ''a'' (Val (Str ''t''))) = Some (Val (PROCESSED deps0))
   \<and> map_option status
     (storedTx (upsertTransaction deps0 True
          (tracking ''a'' (storeTransaction emptyStore (txWith ''t'' 6))) ''a'' (txWith ''t'' 4))
        ''a'' (Val (Str ''t''))) = Some (Val 4)"
  by (simp add: upsertTransaction_def merge_defs store_defs fixture_defs)

text \<open>
  Claim C3, amended: for every stored record with status processed, merging an
  incoming update produces a record with the status of the update, so a pending
  update makes it pending; the stored status is kept only when it is terminal.
\<close>

theorem C3_processed_takes_incoming:
  assumes "accountStates m a = Some acc" "props tx ''id'' = Some i"
    and "getTxById acc i = Some orig" "status orig = Val (PROCESSED d)"
  shows "map_option status (storedTx (upsertTransaction d p m a tx) a i) = Some (status tx)"
  using stored_after_upsert[OF assms(1,2), of d p] assms(3-)
  by (simp add: updatedTx_def merge_status_def opt_status_def js_gt_def)

theorem C3_processed_takes_incoming_witness:
  "map_option status
     (storedTx (upsertTransaction deps0 True
          (tracking ''a'' (storeTransaction emptyStore (txWith ''t'' 6))) ''a'' (txWith ''t'' 4))
        ''a'' (Val (Str ''t''))) = Some (status (txWith ''t'' 4))"
  using C3_processed_takes_incoming[of
      "tracking ''a'' (storeTransaction emptyStore (txWith ''t'' 6))"
      "''a''" "storeTransaction emptyStore (txWith ''t'' 6)" "txWith ''t'' 4" "Val (Str ''t'')"
      "txWith ''t'' 6" deps0 True]
  by (simp add: merge_defs store_defs fixture_defs)

section \<open>Properties of \<open>updateTxNote\<close>\<close>






text \<open>
  What the ledger of the witness holds afterwards: the transaction \<open>u\<close> as before,
  the new note in place of the earlier one, and still nothing under \<open>t\<close>.
\<close>

lemma noted_ledger_example:
  "storedTx (updateTxNote deps0 True (tracking ''a'' notedStore) ''a'' ''t'' ''rent'')
       ''a'' (Val (Str ''u'')) = Some (txWith ''u'' 6)
   \<and> storedTx (updateTxNote deps0 True (tracking ''a'' notedStore) ''a'' ''t'' ''rent'')
       ''a'' Undefined = Some (noteRecord ''rent'')
   \<and> storedTx (updateTxNote deps0 True (tracking ''a'' notedStore) ''a'' ''t'' ''rent'')
       ''a'' (Val (Str ''t'')) = None"
  by (simp add: updateTxNote_def with_note_def upsertTransaction_def notedStore_def
      noteRecord_def merge_defs store_defs fixture_defs)

section \<open>Properties of the submissions\<close>

lemma updateAccountData_ledgers:
  "updateAccountData d m a x = Inr m' \<Longrightarrow> ledgers m' b = ledgers m b"
  by (auto simp: updateAccountData_def updateAppStateAccount_def storeState_def ledgers_def
      split: option.splits)

lemma retrieveAccountData_ledgers:
  "retrieveAccountData d q m a n = Inr m' \<Longrightarrow> ledgers m' b = ledgers m b"
proof (induction d q m a n rule: retrieveAccountData.induct)
  case (1 d query m address retries)
  show ?case
  proof (cases "truthy (ad_error (query retries)) \<and> retries < 5")
    case True
    with 1 show ?thesis by (simp add: retrieveAccountData.simps[of d query m address retries])
  next
    case False
    with "1.prems" show ?thesis
      by (auto simp: retrieveAccountData.simps[of d query m address retries]
          split: js.splits list.splits dest: updateAccountData_ledgers)
  qed
qed

lemma swallow_retrieve_ledgers:
  "ledgers (swallow m (retrieveAccountData d q m a n)) b = ledgers m b"
  by (cases "retrieveAccountData d q m a n")
     (auto simp: swallow_def dest: retrieveAccountData_ledgers)

lemma publish_finish_none:
  "publish_finish d env p m a err None = (r, m') \<Longrightarrow>
     r = \<lparr> res_error = err, res_tx = None \<rparr> \<and> ledgers m' b = ledgers m b"
  by (auto simp: publish_finish_def Let_def swallow_retrieve_ledgers)

lemma no_id:
  assumes "txstate_id (sr_txstate resp) = None"
  shows "response_txid resp = None" "response_error resp \<noteq> Inr None"
  using assms
  by (auto simp: response_txid_def response_error_def split: js.splits option.splits)

lemma caught_props:
  "caught m e = (r, m') \<Longrightarrow> res_error r \<noteq> None \<and> res_tx r = None \<and> m' = m"
  by (auto simp: caught_def)

lemma spawn_no_id:
  assumes "response env = Inr resp" "txstate_id (sr_txstate resp) = None"
    and "publishSelfSpawn d env p m fee idx = (r, m')"
  shows "res_error r \<noteq> None \<and> res_tx r = None \<and> ledgers m' b = ledgers m b"
  using assms(3) no_id[OF assms(2)] assms(1)
  by (auto simp: publishSelfSpawn_def Let_def split: if_splits option.splits sum.splits
      dest!: caught_props publish_finish_none[where b=b])

lemma spend_no_id:
  assumes "response env = Inr resp" "txstate_id (sr_txstate resp) = None"
    and "publishSpendTx d env p m fullTx idx = (r, m')"
  shows "res_error r \<noteq> None \<and> res_tx r = None \<and> ledgers m' b = ledgers m b"
  using assms(3) no_id[OF assms(2)] assms(1)
  by (auto simp: publishSpendTx_def Let_def split: if_splits option.splits sum.splits
      dest!: caught_props publish_finish_none[where b=b])

text \<open>
  Claim C7: when the answer of the node to a submission carries no \<open>txstate.id\<close>,
  both \<open>publishSelfSpawn\<close> and \<open>publishSpendTx\<close> return an error that is not null
  and no transaction, and the ledger of every account is what it was. (The
  follow-up query of the account data may still refresh the balance of the
  account; it does not touch the transactions.)
\<close>

theorem C7_no_id_no_tx:
  assumes "response env = Inr resp" and "txstate_id (sr_txstate resp) = None"
  shows "res_error (fst (publishSelfSpawn d env p m fee idx)) \<noteq> None
       \<and> res_tx (fst (publishSelfSpawn d env p m fee idx)) = None
       \<and> ledgers (snd (publishSelfSpawn d env p m fee idx)) = ledgers m
       \<and> res_error (fst (publishSpendTx d env p m fullTx idx)) \<noteq> None
       \<and> res_tx (fst (publishSpendTx d env p m fullTx idx)) = None
       \<and> ledgers (snd (publishSpendTx d env p m fullTx idx)) = ledgers m"
proof -
  obtain r1 m1 where 1: "publishSelfSpawn d env p m fee idx = (r1, m1)" by force
  obtain r2 m2 where 2: "publishSpendTx d env p m fullTx idx = (r2, m2)" by force
  have "ledgers m1 = ledgers m" "ledgers m2 = ledgers m"
    using spawn_no_id[OF assms 1] spend_no_id[OF assms 2] by auto
  then show ?thesis
    using spawn_no_id[OF assms 1] spend_no_id[OF assms 2] 1 2 by simp
qed

theorem C7_no_id_no_tx_witness:
  "res_error (fst (publishSelfSpawn deps0 env_no_id True managerA 1 0)) \<noteq> None
   \<and> res_tx (fst (publishSelfSpawn deps0 env_no_id True managerA 1 0)) = None
   \<and> ledgers (snd (publishSelfSpawn deps0 env_no_id True managerA 1 0)) = ledgers managerA
   \<and> res_error (fst (publishSpendTx deps0 env_no_id True managerA
        \<lparr> req_receiver = ''B'', req_amount = 5, req_fee = 1, req_note = Undefined \<rparr> 0)) \<noteq> None
   \<and> res_tx (fst (publishSpendTx deps0 env_no_id True managerA
        \<lparr> req_receiver = ''B'', req_amount = 5, req_fee = 1, req_note = Undefined \<rparr> 0)) = None
   \<and> ledgers (snd (publishSpendTx deps0 env_no_id True managerA
        \<lparr> req_receiver = ''B'', req_amount = 5, req_fee = 1, req_note = Undefined \<rparr> 0))
       = ledgers managerA"
  using C7_no_id_no_tx[of env_no_id
      "\<lparr> sr_error = Null, sr_txstate = Val \<lparr> ts_id = Null, ts_state = Val 4 \<rparr> \<rparr>"
      deps0 True managerA 1 0
      "\<lparr> req_receiver = ''B'', req_amount = 5, req_fee = 1, req_note = Undefined \<rparr>"]
  by (simp add: env_no_id_def txstate_id_def)

text \<open>
  What the submission of the witness returns, and that it did reach the node and
  refresh the balance.
\<close>

lemma publishSelfSpawn_no_id_example:
  "publishSelfSpawn deps0 env_no_id True managerA 1 0 =
     (\<lparr> res_error = Some NoTransactionData, res_tx = None \<rparr>,
      managerA\<lparr>accountStates := [''A'' \<mapsto> funded\<lparr>state := Some
                    \<lparr> currentState = \<lparr> counter = 1, balance = 9 \<rparr>,
                      projectedState = \<lparr> counter = 0, balance = 0 \<rparr> \<rparr>\<rparr>],
               sent := [T_M_UPDATE_ACCOUNT ''A''
                    \<lparr> currentState = \<lparr> counter = 1, balance = 9 \<rparr>,
                      projectedState = \<lparr> counter = 0, balance = 0 \<rparr> \<rparr>]\<rparr>)"
  by (simp add: publishSelfSpawn_def publish_finish_def response_error_def response_txid_def
      txstate_id_def swallow_def retrieveAccountData.simps[of _ _ _ _ 0] updateAccountData_def
      snapshot_of_def env_no_id_def managerA_def funded_def keypair_def accountData1_def
      store_defs fixture_defs Let_def)

section \<open>Stores that are gone\<close>

lemma updateAccountData_without_store:
  "accountStates m a = None \<Longrightarrow> updateAccountData d m a x = Inr m"
  by (simp add: updateAccountData_def)

lemma addReward_without_store:
  "accountStates m a = None \<Longrightarrow> guard r \<Longrightarrow> addReward d guard p m a (Val r) = Inl TypeError"
  by (simp add: addReward_def storeReward_def storeReward_write_def)

text \<open>
  Claim C8: every path that writes to a store checks first that the store is still
  there, and discards its input without throwing when it is not. After
  \<open>setAccounts([])\<close> the manager has no store; \<open>upsertTransaction\<close> and
  \<open>updateAccountData\<close> then return and change nothing, but \<open>addReward\<close> and
  \<open>storeReward\<close> have no such check and a reward that arrives makes
  \<open>this.accountStates[publicKey].storeReward\<close> throw a \<open>TypeError\<close>.
\<close>

theorem C8_reward_without_store_throws:
  "setAccounts deps0 (tracking ''a'' emptyStore) [] = Inr initial
   \<and> upsertTransaction deps0 True initial ''a'' (txWith ''t'' 4) = Inr initial
   \<and> updateAccountData deps0 initial ''a'' accountData1 = Inr initial
   \<and> addReward deps0 (\<lambda>r. True) True initial ''a'' (Val reward1) = Inl TypeError"
  by (simp add: setAccounts_def unsubscribeAllStreams_def upsertTransaction_def
      updateAccountData_def addReward_def store_defs fixture_defs)

section \<open>The keychain\<close>

lemma findIndex_range:
  "findIndex f xs = -1 \<or> (0 \<le> findIndex f xs \<and> findIndex f xs < int (length xs))"
  by (induction xs) (auto simp: Let_def)

lemma addAccount_keychain_found:
  assumes "findIndex (\<lambda>kp. publicKey kp = publicKey k) kc = int i"
  shows "addAccount_keychain kc k = take (i - 1) kc @ drop (Suc i) kc @ [k]"
proof -
  have "nat (max 0 (int i - 1)) = i - 1" by auto
  moreover have "nat (int i + 1) = Suc i" by auto
  ultimately show ?thesis using assms
    by (simp add: addAccount_keychain_def slice_def slice_from_def)
qed

lemma addAccount_keychain_two_removed:
  assumes "findIndex (\<lambda>kp. publicKey kp = publicKey k) kc = int (Suc i)"
  shows "length (addAccount_keychain kc k) = length kc - 1"
proof -
  have "int (Suc i) < int (length kc)"
    using findIndex_range[of "\<lambda>kp. publicKey kp = publicKey k" kc] assms by auto
  then show ?thesis
    using addAccount_keychain_found[OF assms] by auto
qed

text \<open>
  Claim C10: when the public key of the new key pair is already in the keychain,
  \<open>addAccount\<close> removes that entry only and appends the new key pair. The code cuts
  the keychain at \<open>idx - 1\<close>: adding \<open>A\<close>, \<open>B\<close> and then \<open>B\<close> again leaves a keychain
  without \<open>A\<close>, the entry before the match.
\<close>

theorem C10_entry_before_match_dropped:
  "addAccount_keychain [keypair ''A'' ''1'', keypair ''B'' ''2''] (keypair ''B'' ''3'')
     = [keypair ''B'' ''3'']
   \<and> map_sum id keychain
       (addAccounts deps0 initial [keypair ''A'' ''1'', keypair ''B'' ''2'', keypair ''B'' ''3''])
     = Inr [keypair ''B'' ''3'']"
  by (simp add: addAccount_def addAccount_keychain_def slice_def slice_from_def keypair_def
      subscribeAccount_def cancel_txStateStream_def store_defs fixture_defs Let_def)

section \<open>The walk over the pages\<close>

lemma foldl_onPage: "foldl onPage acc xs = acc @ xs"
  by (induction xs arbitrary: acc) (simp_all add: onPage_def)

lemma forEach_onPage: "\<exists>extra. forEach onPage acc xs = acc @ extra"
  by (cases xs) (simp_all add: forEach_def foldl_onPage)

text \<open>
  While the requests for an offset fail and retries are left, the walk asks for the
  same offset again and hands nothing to the handler.
\<close>

lemma retry_phase:
  assumes "\<forall>n. length requests \<le> n \<and> n < length requests + j
              \<longrightarrow> truthy (mr_error (request n offset))"
    and "retries + j \<le> 5"
  shows "retrieveHistoricTxData d request handler offset retries requests s
       = retrieveHistoricTxData d request handler offset (retries + j)
           (requests @ replicate j offset) s"
  using assms
proof (induction j arbitrary: retries requests)
  case 0
  then show ?case by simp
next
  case (Suc j)
  have f: "truthy (mr_error (request (length requests) offset))" using Suc.prems(1) by simp
  have r: "retries < 5" using Suc.prems(2) by simp
  have first: "retrieveHistoricTxData d request handler offset retries requests s
      = retrieveHistoricTxData d request handler offset (retries + 1) (requests @ [offset]) s"
    using f r by (subst retrieveHistoricTxData.simps) (simp add: Let_def)
  have "retrieveHistoricTxData d request handler offset (retries + 1) (requests @ [offset]) s
      = retrieveHistoricTxData d request handler offset (retries + 1 + j)
          ((requests @ [offset]) @ replicate j offset) s"
    using Suc.prems by (intro Suc.IH) auto
  with first show ?case by (simp add: replicate_append_same)
qed

text \<open>
  Claim C4: when the node reports \<open>totalResults = 250\<close> and the page size is 100,
  the walk from offset 0 asks for the pages at offsets 0, 100 and 200, in this
  order, and hands their 250 records to the handler; when the request for offset
  100 fails \<open>k\<close> times before it is answered (\<open>k \<le> 5\<close>, twice in the claim), that page
  is asked for \<open>k + 1\<close> times, no other offset is asked for, and the same records
  are handed over. The walk ends.
\<close>

theorem C4_three_pages:
  assumes "GRPC_QUERY_BATCH_SIZE d = 100" and "k \<le> 5"
    and "request 0 0 = page d0 250" and "length d0 = 100"
    and "\<forall>n. 1 \<le> n \<and> n \<le> k \<longrightarrow> truthy (mr_error (request n 100))"
    and "request (k + 1) 100 = page d1 250" and "length d1 = 100"
    and "request (k + 2) 200 = page d2 250" and "length d2 = 50"
  shows "retrieveHistoricTxData d request onPage 0 0 [] []
           = Some (0 # replicate (k + 1) 100 @ [200], d0 @ d1 @ d2)
       \<and> length (d0 @ d1 @ d2) = 250"
proof -
  have "retrieveHistoricTxData d request onPage 0 0 [] []
     = retrieveHistoricTxData d request onPage 100 0 [0] d0"
    using assms(1,3)
    by (subst retrieveHistoricTxData.simps)
       (simp add: Let_def page_def more_after_def forEach_def foldl_onPage)
  also have "\<dots> = retrieveHistoricTxData d request onPage 100 (0 + k) ([0] @ replicate k 100) d0"
    using assms(2,5) by (intro retry_phase) auto
  also have "\<dots> = retrieveHistoricTxData d request onPage 200 0
                     (([0] @ replicate k 100) @ [100]) (d0 @ d1)"
    using assms(1,6)
    by (subst retrieveHistoricTxData.simps)
       (simp add: Let_def page_def more_after_def forEach_def foldl_onPage)
  also have "\<dots> = Some ((([0] @ replicate k 100) @ [100]) @ [200], (d0 @ d1) @ d2)"
    using assms(1,8)
    by (subst retrieveHistoricTxData.simps)
       (simp add: Let_def page_def more_after_def forEach_def foldl_onPage)
  finally show ?thesis using assms(4,7,9) by (simp add: replicate_append_same)
qed

theorem C4_three_pages_witness:
  "retrieveHistoricTxData deps0 flaky onPage 0 0 [] []
     = Some ([0, 100, 100, 100, 200], records 0 100 @ records 100 100 @ records 200 50)
   \<and> length (records 0 100 @ records 100 100 @ records 200 50) = 250"
  using C4_three_pages[of deps0 2 flaky "records 0 100" "records 100 100" "records 200 50"]
  by (simp add: deps0_def flaky_def failure_def records_def numeral_3_eq_3)

text \<open>
  Claim C5, as the specification states it: once the retries for an offset are
  used up, the walk asks for no later offset. The code has no branch for that
  case: the sixth failing answer is treated like a page, and when it still reports
  a total beyond this page the walk goes on. Here every request for offset 100
  fails and reports \<open>totalResults = 250\<close>; after six of them the walk asks for
  offset 200.
\<close>

theorem C5_walk_goes_on:
  "retrieveHistoricTxData deps0 broken_with_total onPage 0 0 [] []
     = Some ([0, 100, 100, 100, 100, 100, 100, 200], [0, 1, 200, 201])"
  by (simp add: retrieveHistoricTxData.simps Let_def deps0_def broken_with_total_def page_def
      failure_def more_after_def forEach_def onPage_def)

text \<open>
  Claim C5, amended: when the request for an offset fails six times in a row (the
  first attempt and five retries) and the last failing answer reports no result
  beyond this page (\<open>totalResults\<close> is missing, or at most the offset plus the page
  size), the walk ends there: it has asked for that offset six times and for no
  later one, and everything that was handed to the handler before is still there,
  followed by whatever the last answer carried.
\<close>

theorem C5_walk_stops:
  assumes "\<forall>n. length requests \<le> n \<and> n \<le> length requests + 5
              \<longrightarrow> truthy (mr_error (request n offset))"
    and "\<not> more_after (offset + GRPC_QUERY_BATCH_SIZE d)
             (mr_totalResults (request (length requests + 5) offset))"
  shows "\<exists>extra. retrieveHistoricTxData d request onPage offset 0 requests delivered
       = Some (requests @ replicate 6 offset, delivered @ extra)"
proof -
  have "retrieveHistoricTxData d request onPage offset 0 requests delivered
      = retrieveHistoricTxData d request onPage offset (0 + 5)
          (requests @ replicate 5 offset) delivered"
    using assms(1) by (intro retry_phase) auto
  also have "\<dots> = Some ((requests @ replicate 5 offset) @ [offset],
       forEach onPage delivered (mr_data (request (length requests + 5) offset)))"
    using assms(2) by (subst retrieveHistoricTxData.simps) (simp add: Let_def)
  finally show ?thesis
    using forEach_onPage[of delivered "mr_data (request (length requests + 5) offset)"]
    by (auto simp: numeral_eq_Suc replicate_append_same)
qed

theorem C5_walk_stops_witness:
  "\<exists>extra. retrieveHistoricTxData deps0 broken onPage 100 0 [0] [0, 1]
     = Some ([0] @ replicate 6 100, [0, 1] @ extra)"
  using C5_walk_stops[of "[0]" broken 100 deps0 "[0, 1]"]
  by (simp add: broken_def failure_def more_after_def)

text \<open>The same walk from offset 0, run: page 0 is delivered, offset 100 is given up.\<close>

lemma walk_stops_example:
  "retrieveHistoricTxData deps0 broken onPage 0 0 [] []
     = Some ([0, 100, 100, 100, 100, 100, 100], [0, 1])"
  by (simp add: retrieveHistoricTxData.simps Let_def deps0_def broken_def page_def
      failure_def more_after_def forEach_def onPage_def)

section \<open>After the accounts are replaced\<close>

lemma step_without_store:
  assumes "accountStates m (event_address e) = None"
  shows "swallow m (step d guard m e) = m"
proof (cases e)
  case (TxStatePushed a u)
  with assms show ?thesis
    by (auto simp: swallow_def handleNewTx_def upsertTransaction_absent
        split: js.splits option.splits)
next
  case (MeshTxPushed a t)
  with assms show ?thesis
    by (auto simp: swallow_def upsertTransactionFromMesh_def upsertTransaction_absent
        split: js.splits option.splits)
next
  case (TxResultPushed a r)
  with assms show ?thesis
    by (auto simp: swallow_def onTransactionResult_def upsertTransaction_absent
        split: js.splits option.splits)
next
  case (UpsertCalled a tx)
  with assms show ?thesis by (simp add: swallow_def upsertTransaction_absent)
next
  case (AccountDataPushed a x)
  with assms show ?thesis by (simp add: swallow_def updateAccountData_def)
next
  case (RewardPushed a r)
  with assms show ?thesis
    by (auto simp: swallow_def addReward_def storeReward_def storeReward_write_def
        split: js.splits)
next
  case (StoreTxSettled a ok)
  with assms show ?thesis by (simp add: swallow_def then_catch_def updateAppStateTxs_def)
next
  case (StoreRewardSettled a ok)
  with assms show ?thesis by (simp add: swallow_def then_catch_def updateAppStateRewards_def)
next
  case (SubscribeTimerFired a)
  with assms show ?thesis by (simp add: swallow_def subscribeTransactions_fire_def)
qed

lemma run_without_stores:
  assumes "\<forall>e \<in> set evs. accountStates m (event_address e) = None"
  shows "run d guard m evs = m"
  using assms by (induction evs) (simp_all add: step_without_store)

lemma setAccounts_nil:
  "setAccounts d m [] =
     Inr (m\<lparr>cancelled := cancelled m @ concat (map snd (unsubs m)), unsubs := [],
            keychain := [], accountStates := Map.empty\<rparr>)"
  by (simp add: setAccounts_def unsubscribeAllStreams_def)

lemma addAccount_A: "addAccount deps0 initial (keypair ''A'' ''1'') = Inr trackedA"
  by (simp add: addAccount_def addAccount_keychain_def slice_def slice_from_def keypair_def
      subscribeAccount_def cancel_txStateStream_def store_defs fixture_defs trackedA_def Let_def)

lemma setAccounts_A: "setAccounts deps0 trackedA [] = Inr removedA"
  by (simp add: setAccounts_nil trackedA_def removedA_def)

text \<open>
  Claim C6: after \<open>addAccount(keypair)\<close> and then \<open>setAccounts([])\<close>, whatever work
  was in flight or waiting on a timer and runs afterwards, in any order and with
  any payload, no notification is sent to the window: the notifications are those
  that \<open>addAccount\<close> itself had sent, and the manager stays without any store.
\<close>

theorem C6_nothing_sent_after_removal:
  assumes "addAccount d m kp = Inr m1" and "setAccounts d m1 [] = Inr m2"
  shows "sent (run d guard m2 evs) = sent m1 \<and> accountStates (run d guard m2 evs) = Map.empty"
proof -
  from assms(2) have m2: "m2 = m1\<lparr>cancelled := cancelled m1 @ concat (map snd (unsubs m1)),
       unsubs := [], keychain := [], accountStates := Map.empty\<rparr>"
    by (simp add: setAccounts_nil)
  then have "\<forall>e \<in> set evs. accountStates m2 (event_address e) = None" by simp
  from run_without_stores[OF this] m2 show ?thesis by simp
qed

theorem C6_nothing_sent_after_removal_witness:
  "sent (run deps0 (\<lambda>r. True) removedA
       [UpsertCalled ''A'' (txWith ''t'' 4), StoreTxSettled ''A'' True,
        RewardPushed ''A'' (Val reward1), StoreRewardSettled ''A'' True,
        AccountDataPushed ''A'' accountData1, SubscribeTimerFired ''A''])
     = [T_M_UPDATE_TXS ''A'' Map.empty, T_M_UPDATE_REWARDS ''A'' []]
   \<and> accountStates (run deps0 (\<lambda>r. True) removedA
       [UpsertCalled ''A'' (txWith ''t'' 4), StoreTxSettled ''A'' True,
        RewardPushed ''A'' (Val reward1), StoreRewardSettled ''A'' True,
        AccountDataPushed ''A'' accountData1, SubscribeTimerFired ''A'']) = Map.empty"
  using C6_nothing_sent_after_removal[OF addAccount_A setAccounts_A, of "\<lambda>r. True"
      "[UpsertCalled ''A'' (txWith ''t'' 4), StoreTxSettled ''A'' True,
        RewardPushed ''A'' (Val reward1), StoreRewardSettled ''A'' True,
        AccountDataPushed ''A'' accountData1, SubscribeTimerFired ''A'']"]
  by (simp add: trackedA_def)

text \<open>
  The same callbacks while the account is still tracked do notify the window, so
  the statement above is not empty.
\<close>

lemma tracked_account_notifies:
  "sent (run deps0 (\<lambda>r. True) trackedA
       [UpsertCalled ''A'' (txWith ''t'' 4), StoreTxSettled ''A'' True])
     = [T_M_UPDATE_TXS ''A'' Map.empty, T_M_UPDATE_REWARDS ''A'' [],
        T_M_UPDATE_TXS ''A'' [Val (Str ''t'') \<mapsto> txWith ''t'' 4]]"
  by (simp add: swallow_def upsertTransaction_def merge_defs store_defs fixture_defs trackedA_def)

end
